theory Spec2Isabelle
  imports Complex_Main
begin

section \<open>Values of the program\<close>

text \<open>
  The log file is JSON, so every record the program handles is whatever \<open>json.load\<close>
  produced: \<open>None\<close>, a bool, a number, a string, a list or a dict. Python's unbounded
  ints and its floats are both modelled as \<open>real\<close>; a dict is the list of its items
  (a Python dict holds each key once, and \<open>map_of\<close> is the lookup).
\<close>

datatype json =
    JNull
  | JBool bool
  | JNum real
  | JStr string
  | JArr "json list"
  | JObj "(string \<times> json) list"

text \<open>The exceptions that the modelled code can raise.\<close>

datatype pyerr = AttributeError | KeyError | TypeError | ValueError | OSError

text \<open>\<open>e.get(k)\<close>: \<open>None\<close> for a missing key, AttributeError when \<open>e\<close> is not a dict.\<close>

fun py_get :: "json \<Rightarrow> string \<Rightarrow> pyerr + json" where
  "py_get (JObj kvs) k = Inr (case map_of kvs k of None \<Rightarrow> JNull | Some v \<Rightarrow> v)"
| "py_get _ k = Inl AttributeError"

text \<open>\<open>e[k]\<close> with a string key: KeyError for a missing key of a dict, TypeError when
  \<open>e\<close> is anything but a dict (None, numbers, strings and lists take no string index).\<close>

fun py_item :: "json \<Rightarrow> string \<Rightarrow> pyerr + json" where
  "py_item (JObj kvs) k = (case map_of kvs k of None \<Rightarrow> Inl KeyError | Some v \<Rightarrow> Inr v)"
| "py_item _ k = Inl TypeError"

subsection \<open>Timestamps\<close>

text \<open>
  A Python \<open>datetime\<close> is its wall-clock fields (year to microsecond) and an optional
  UTC offset. The fields are kept as one number, the microseconds from
  1970-01-01T00:00:00 on that wall clock, which determines them and is determined by
  them; \<open>utcoffset\<close> is \<open>None\<close> for a naive value and the offset in microseconds for an
  aware one.
\<close>

record datetime =
  wall :: int
  utcoffset :: "int option"

definition us_per_hour :: int where
  "us_per_hour = 3600000000"

definition us_per_day :: int where
  "us_per_day = 24 * us_per_hour"

text \<open>\<open>dt.hour\<close>: the hour field of the wall clock, whatever the offset.\<close>

definition hour :: "datetime \<Rightarrow> int" where
  "hour dt = (wall dt div us_per_hour) mod 24"

text \<open>\<open>dt.date()\<close>: the calendar date of the wall clock, as the number of days from
  1970-01-01. \<open>date.isoformat()\<close> is one-to-one on dates, so the day number stands for
  the string that the code uses as dictionary key.\<close>

definition date :: "datetime \<Rightarrow> int" where
  "date dt = wall dt div us_per_day"

text \<open>\<open>datetime.now(timezone.utc)\<close> when the clock reads \<open>t\<close> microseconds after the
  epoch.\<close>

definition utc :: "int \<Rightarrow> datetime" where
  "utc t = \<lparr>wall = t, utcoffset = Some 0\<rparr>"

text \<open>\<open>a >= b\<close> on datetimes: aware values compare as instants, naive ones by their
  fields, and mixing the two raises TypeError.\<close>

definition dt_ge :: "datetime \<Rightarrow> datetime \<Rightarrow> pyerr + bool" where
  "dt_ge a b =
     (case (utcoffset a, utcoffset b) of
        (Some oa, Some ob) \<Rightarrow> Inr (wall b - ob \<le> wall a - oa)
      | (None, None) \<Rightarrow> Inr (wall b \<le> wall a)
      | _ \<Rightarrow> Inl TypeError)"

text \<open>\<open>t.replace("Z", "+00:00")\<close> on a string.\<close>

definition replace_Z :: "string \<Rightarrow> string" where
  "replace_Z t = concat (map (\<lambda>c. if c = CHR ''Z'' then ''+00:00'' else [c]) t)"

text \<open>
  \<open>datetime.datetime.fromisoformat(t.replace("Z", "+00:00"))\<close> for a value \<open>t\<close> read
  from a record. The library parser is a parameter \<open>fromiso\<close> (\<open>None\<close> where it raises
  ValueError), so that the results hold for the parser of every Python version.
  A \<open>t\<close> that is not a string has no \<open>replace\<close> method: AttributeError.
\<close>

type_synonym isoparser = "string \<Rightarrow> datetime option"

fun parse_time :: "isoparser \<Rightarrow> json \<Rightarrow> pyerr + datetime" where
  "parse_time fromiso (JStr t) =
     (case fromiso (replace_Z t) of None \<Rightarrow> Inl ValueError | Some dt \<Rightarrow> Inr dt)"
| "parse_time fromiso _ = Inl AttributeError"

section \<open>compute_barometric_stability_local\<close>

definition STABILITY_THRESHOLD :: real where
  "STABILITY_THRESHOLD = 2.0"

definition STABILITY_DAYS :: nat where
  "STABILITY_DAYS = 4"

text \<open>
  The loop of lines 87 to 95. \<open>e.get\<close> stands outside the \<open>try\<close>, so a record that is
  not a dict raises; everything the parse raises is swallowed and the record skipped.
  The accumulator is the \<open>defaultdict(list)\<close>.
\<close>

fun collect :: "isoparser \<Rightarrow> json list \<Rightarrow> (int \<rightharpoonup> json list) \<Rightarrow> pyerr + (int \<rightharpoonup> json list)" where
  "collect fromiso [] m = Inr m"
| "collect fromiso (e # es) m =
     (case py_get e ''time'' of
        Inl err \<Rightarrow> Inl err
      | Inr t \<Rightarrow>
          (case py_get e ''p_now'' of
             Inl err \<Rightarrow> Inl err
           | Inr p \<Rightarrow>
               (case parse_time fromiso t of
                  Inl _ \<Rightarrow> collect fromiso es m
                | Inr dt \<Rightarrow>
                    collect fromiso es
                      (m(date dt \<mapsto> (case m (date dt) of None \<Rightarrow> [] | Some ps \<Rightarrow> ps) @ [p])))))"

text \<open>\<open>sum(vals)\<close>: starts from 0 and adds from the left; a bool counts as 0 or 1, and
  adding anything else that JSON can hold to a number raises TypeError.\<close>

fun py_add :: "real \<Rightarrow> json \<Rightarrow> pyerr + real" where
  "py_add acc (JNum x) = Inr (acc + x)"
| "py_add acc (JBool b) = Inr (acc + (if b then 1 else 0))"
| "py_add acc _ = Inl TypeError"

fun py_sum :: "real \<Rightarrow> json list \<Rightarrow> pyerr + real" where
  "py_sum acc [] = Inr acc"
| "py_sum acc (v # vs) = (case py_add acc v of Inl err \<Rightarrow> Inl err | Inr acc' \<Rightarrow> py_sum acc' vs)"

text \<open>Line 101: \<open>sum(vals)/len(vals) if vals else None\<close>, for \<open>vals\<close> the result of
  \<open>pressures_by_date.get(d)\<close>.\<close>

definition day_avg :: "json list option \<Rightarrow> pyerr + real option" where
  "day_avg vals =
     (case vals of
        None \<Rightarrow> Inr None
      | Some vs \<Rightarrow>
          if vs = [] then Inr None
          else (case py_sum 0 vs of
                  Inl err \<Rightarrow> Inl err
                | Inr s \<Rightarrow> Inr (Some (s / real (length vs)))))"

text \<open>Line 97: the dates \<open>now - 1 day, ..., now - STABILITY_DAYS days\<close>.\<close>

definition past_dates :: "int \<Rightarrow> int list" where
  "past_dates today = map (\<lambda>i. today - int i) [1 ..< STABILITY_DAYS + 1]"

text \<open>The loop of lines 99 to 101, stopping at the first exception.\<close>

fun avgs_of :: "(int \<rightharpoonup> json list) \<Rightarrow> int list \<Rightarrow> pyerr + real option list" where
  "avgs_of m [] = Inr []"
| "avgs_of m (d # ds) =
     (case day_avg (m d) of
        Inl err \<Rightarrow> Inl err
      | Inr a \<Rightarrow> (case avgs_of m ds of Inl err \<Rightarrow> Inl err | Inr as \<Rightarrow> Inr (a # as)))"

text \<open>The test of line 104 for index \<open>i\<close>.\<close>

definition stable_at :: "real option list \<Rightarrow> nat \<Rightarrow> bool" where
  "stable_at avgs i =
     (case (avgs ! i, avgs ! (i - 1)) of
        (Some a, Some b) \<Rightarrow> \<bar>a - b\<bar> \<le> STABILITY_THRESHOLD
      | _ \<Rightarrow> False)"

text \<open>Lines 102 to 105: the number of indices in \<open>range(1, len(avgs))\<close> that pass.\<close>

definition count_stable :: "real option list \<Rightarrow> nat" where
  "count_stable avgs = length (filter (stable_at avgs) [1 ..< length avgs])"

text \<open>The function, with the clock reading \<open>now\<close> of line 96 as an argument.\<close>

definition compute_barometric_stability_local :: "isoparser \<Rightarrow> int \<Rightarrow> json list \<Rightarrow> pyerr + real" where
  "compute_barometric_stability_local fromiso now entries =
     (if entries = [] then Inr 0
      else (case collect fromiso entries Map.empty of
              Inl err \<Rightarrow> Inl err
            | Inr pressures_by_date \<Rightarrow>
                (case avgs_of pressures_by_date (rev (past_dates (date (utc now)))) of
                   Inl err \<Rightarrow> Inl err
                 | Inr avgs \<Rightarrow> Inr (real (count_stable avgs) / real STABILITY_DAYS))))"

section \<open>compute_score\<close>

text \<open>
  \<open>round(x, 1)\<close>: the nearest multiple of one tenth, a tie going to the even one.
  Floats are modelled as reals, so the rounding is that of the exact value.
\<close>

definition round_half_even :: "real \<Rightarrow> int" where
  "round_half_even x =
     (let f = \<lfloor>x\<rfloor>; d = x - of_int f
      in if d < 1 / 2 then f else if 1 / 2 < d then f + 1 else if even f then f else f + 1)"

definition py_round1 :: "real \<Rightarrow> real" where
  "py_round1 x = of_int (round_half_even (x * 10)) / 10"

definition compute_score :: "real \<Rightarrow> real \<Rightarrow> real \<Rightarrow> real \<Rightarrow> real \<Rightarrow> real" where
  "compute_score p_now p_prev T_now L_now D =
     (let P = max 0 (1 - \<bar>p_now - p_prev\<bar> / 10);
          L = max 0 (1 - \<bar>L_now - 7\<bar> / 5);
          T = max 0 (1 - \<bar>T_now - 75\<bar> / 15);
          S = 0.30 * D + 0.25 * P + 0.20 * L + 0.25 * T
      in py_round1 (S * 100))"

section \<open>The log file\<close>

text \<open>
  What a path of the file system holds, as far as \<open>open\<close> and \<open>json.load\<close> can tell:
  a file that \<open>open\<close> refuses (no permission, a directory), a readable file whose text
  is not a JSON document (empty and truncated files among them), or a readable file
  whose text is the JSON document of a value. A path with no entry does not exist.
\<close>

datatype stored = Unreadable | Malformed | Document json

type_synonym filesystem = "string \<rightharpoonup> stored"

subsection \<open>load_existing_data\<close>

text \<open>The body of the \<open>try\<close>, lines 117 to 120: \<open>Inl\<close> for an exception, \<open>Inr None\<close>
  when the \<open>if\<close> is not taken and control falls out of the \<open>try\<close>, \<open>Inr (Some r)\<close> for
  \<open>return r\<close>.\<close>

definition load_try :: "filesystem \<Rightarrow> string \<Rightarrow> pyerr + json list option" where
  "load_try fs path =
     (case fs path of
        None \<Rightarrow> Inr None
      | Some Unreadable \<Rightarrow> Inl OSError
      | Some Malformed \<Rightarrow> Inl ValueError
      | Some (Document data) \<Rightarrow>
          Inr (Some (case data of JArr xs \<Rightarrow> xs | _ \<Rightarrow> [])))"

text \<open>The bare \<open>except: pass\<close> and the final \<open>return []\<close>.\<close>

definition load_existing_data :: "filesystem \<Rightarrow> string \<Rightarrow> pyerr + json list" where
  "load_existing_data fs path =
     (case load_try fs path of
        Inl _ \<Rightarrow> Inr []
      | Inr None \<Rightarrow> Inr []
      | Inr (Some r) \<Rightarrow> Inr r)"

subsection \<open>save_data\<close>

text \<open>\<open>os.path.dirname\<close> on POSIX: the text up to the last slash, without the
  slashes that end it unless it is made of slashes only.\<close>

definition dirname :: "string \<Rightarrow> string" where
  "dirname p =
     (let head = rev (dropWhile (\<lambda>c. c \<noteq> CHR ''/'') (rev p))
      in if head \<noteq> [] \<and> \<not> list_all (\<lambda>c. c = CHR ''/'') head
         then rev (dropWhile (\<lambda>c. c = CHR ''/'') (rev head))
         else head)"

text \<open>
  Each system call of \<open>save_data\<close> either succeeds or raises; which ones raise in a
  given run is the argument \<open>fails\<close>. \<open>os.replace\<close> is atomic, as on POSIX: it renames
  or it raises and changes nothing. Paths name files directly (no links), and
  directories hold no contents of their own, so \<open>os.makedirs\<close> leaves every file as
  it is; it raises on the empty name that \<open>dirname\<close> gives for a path with no slash.
\<close>

datatype syscall = Makedirs | Open | Dump | Close | Replace

text \<open>
  The states of the file system that \<open>save_data\<close> goes through, in order, the first
  being the one it starts from, and how it ends: \<open>Inl\<close> for the exception that left it,
  \<open>Inr ()\<close> for a return. \<open>open(tmp, 'w')\<close> truncates the temporary file, and until
  \<open>json.dump\<close> and the close at the end of the \<open>with\<close> block have both succeeded
  the temporary file holds a part of the text only.
\<close>

definition save_data :: "(syscall \<Rightarrow> bool) \<Rightarrow> string \<Rightarrow> json list \<Rightarrow> filesystem \<Rightarrow> (pyerr + unit) \<times> filesystem list" where
  "save_data fails path data fs =
     (if dirname path = [] \<or> fails Makedirs then (Inl OSError, [fs])
      else
        let tmp = path @ ''.tmp'' in
        if fails Open then (Inl OSError, [fs])
        else
          let fs1 = fs(tmp \<mapsto> Malformed) in
          if fails Dump then (Inl OSError, [fs, fs1])
          else if fails Close then (Inl OSError, [fs, fs1])
          else
            let fs2 = fs1(tmp \<mapsto> Document (JArr data)) in
            if fails Replace then (Inl OSError, [fs, fs1, fs2])
            else (Inr (), [fs, fs1, fs2, (fs2(path := fs2 tmp))(tmp := None)]))"

section \<open>The log management of main\<close>

definition KEEP_HOURS :: int where
  "KEEP_HOURS = 30 * 24"

text \<open>\<open>datetime.datetime.fromisoformat(e["time"].replace("Z","+00:00"))\<close> for a record
  \<open>e\<close>, as lines 157 and 158 have it: nothing catches what it raises.\<close>

definition record_time :: "isoparser \<Rightarrow> json \<Rightarrow> pyerr + datetime" where
  "record_time fromiso e =
     (case py_item e ''time'' of Inl err \<Rightarrow> Inl err | Inr t \<Rightarrow> parse_time fromiso t)"

text \<open>The list comprehension of line 157 against a given cutoff.\<close>

fun keep_recent :: "isoparser \<Rightarrow> datetime \<Rightarrow> json list \<Rightarrow> pyerr + json list" where
  "keep_recent fromiso cutoff [] = Inr []"
| "keep_recent fromiso cutoff (e # es) =
     (case record_time fromiso e of
        Inl err \<Rightarrow> Inl err
      | Inr dt \<Rightarrow>
          (case dt_ge dt cutoff of
             Inl err \<Rightarrow> Inl err
           | Inr keep \<Rightarrow>
               (case keep_recent fromiso cutoff es of
                  Inl err \<Rightarrow> Inl err
                | Inr rest \<Rightarrow> Inr (if keep then e # rest else rest))))"

text \<open>Lines 156 and 157, the clock reading \<open>now\<close> in microseconds.\<close>

definition prune :: "isoparser \<Rightarrow> int \<Rightarrow> json list \<Rightarrow> pyerr + json list" where
  "prune fromiso now data = keep_recent fromiso (utc (now - KEEP_HOURS * us_per_hour)) data"

text \<open>Lines 158 to 161, the clock reading \<open>now\<close> of line 158 and the record of line 155
  as arguments. \<open>data[-1] = entry\<close> is the update at the last index.\<close>

definition merge_or_append :: "isoparser \<Rightarrow> int \<Rightarrow> json list \<Rightarrow> json \<Rightarrow> pyerr + json list" where
  "merge_or_append fromiso now data entry =
     (if data = [] then Inr (data @ [entry])
      else (case record_time fromiso (last data) of
              Inl err \<Rightarrow> Inl err
            | Inr dt \<Rightarrow>
                if hour dt = hour (utc now) then Inr (data[length data - 1 := entry])
                else Inr (data @ [entry])))"

text \<open>Lines 156 to 161 together: \<open>now1\<close> is the clock at line 156, \<open>now2\<close> at line 158.\<close>

definition update_log :: "isoparser \<Rightarrow> int \<Rightarrow> int \<Rightarrow> json list \<Rightarrow> json \<Rightarrow> pyerr + json list" where
  "update_log fromiso now1 now2 data entry =
     (case prune fromiso now1 data of
        Inl err \<Rightarrow> Inl err
      | Inr kept \<Rightarrow> merge_or_append fromiso now2 kept entry)"

text \<open>Line 155: the record that \<open>main\<close> builds, \<open>now\<close> being the text of line 154.\<close>

definition make_entry :: "string \<Rightarrow> real \<Rightarrow> real \<Rightarrow> real \<Rightarrow> real \<Rightarrow> json" where
  "make_entry now p_now T_now L_now pct =
     JObj [(''time'', JStr now), (''p_now'', JNum p_now), (''T_now'', JNum T_now),
           (''L_now'', JNum L_now), (''score'', JNum pct)]"

text \<open>
  Lines 151 to 162 of \<open>main\<close>, once the four readings are there: load, estimate,
  score, build the entry, prune, merge or append, save. The clock is read four times:
  \<open>now0\<close> at line 96, the reading of line 154 whose text is \<open>now_text\<close>, \<open>now1\<close> at
  line 156 and \<open>now2\<close> at line 158. The result is how the run ends and the file
  system it leaves; an exception leaves \<open>main\<close> at once.
\<close>

definition main_log :: "isoparser \<Rightarrow> (syscall \<Rightarrow> bool) \<Rightarrow> string \<Rightarrow> int \<Rightarrow> string \<Rightarrow> int \<Rightarrow> int \<Rightarrow> real \<Rightarrow> real \<Rightarrow> real \<Rightarrow> real \<Rightarrow> filesystem \<Rightarrow> (pyerr + unit) \<times> filesystem" where
  "main_log fromiso fails path now0 now_text now1 now2 p_now p_prev T_now L_now fs =
     (case load_existing_data fs path of
        Inl err \<Rightarrow> (Inl err, fs)
      | Inr data \<Rightarrow>
          (case compute_barometric_stability_local fromiso now0 data of
             Inl err \<Rightarrow> (Inl err, fs)
           | Inr D \<Rightarrow>
               let pct = compute_score p_now p_prev T_now L_now D;
                   entry = make_entry now_text p_now T_now L_now pct
               in (case update_log fromiso now1 now2 data entry of
                     Inl err \<Rightarrow> (Inl err, fs)
                   | Inr data' \<Rightarrow>
                       (fst (save_data fails path data' fs),
                        last (snd (save_data fails path data' fs))))))"

section \<open>Timestamps of the examples\<close>

text \<open>
  A part of \<open>fromisoformat\<close> that every Python version has: the text
  \<open>YYYY-MM-DDTHH:MM:SS\<close>, alone (a naive value) or followed by an offset
  \<open>+HH:MM\<close> or \<open>-HH:MM\<close> (an aware one). It instantiates the parser in the examples;
  on other texts it answers \<open>None\<close>, so the theorems about every history never
  use it.
\<close>

definition digit :: "char \<Rightarrow> nat option" where
  "digit c =
     (let n = (of_char c :: nat) in if 48 \<le> n \<and> n \<le> 57 then Some (n - 48) else None)"

fun number :: "nat \<Rightarrow> string \<Rightarrow> nat option" where
  "number acc [] = Some acc"
| "number acc (c # cs) = (case digit c of None \<Rightarrow> None | Some d \<Rightarrow> number (10 * acc + d) cs)"

definition leap_year :: "nat \<Rightarrow> bool" where
  "leap_year y = (y mod 4 = 0 \<and> (if y mod 100 = 0 then y mod 400 = 0 else True))"

definition days_in_month :: "nat \<Rightarrow> nat \<Rightarrow> nat" where
  "days_in_month y m =
     (if m = 2 then (if leap_year y then 29 else 28)
      else if m = 4 \<or> m = 6 \<or> m = 9 \<or> m = 11 then 30 else 31)"

text \<open>The number of days from 1970-01-01 to a date of the proleptic Gregorian
  calendar (years counted from March, in eras of 400 years).\<close>

definition days_from_civil :: "nat \<Rightarrow> nat \<Rightarrow> nat \<Rightarrow> int" where
  "days_from_civil y m d =
     (let y' = (if m \<le> 2 then int y - 1 else int y);
          era = y' div 400;
          yoe = y' - era * 400;
          mp = (if 2 < m then int m - 3 else int m + 9);
          doy = (153 * mp + 2) div 5 + int d - 1;
          doe = yoe * 365 + yoe div 4 - yoe div 100 + doy
      in era * 146097 + doe - 719468)"

definition civil_wall :: "nat \<Rightarrow> nat \<Rightarrow> nat \<Rightarrow> nat \<Rightarrow> nat \<Rightarrow> nat \<Rightarrow> int option" where
  "civil_wall y m d H M S =
     (if 1 \<le> y \<and> 1 \<le> m \<and> m \<le> 12 \<and> 1 \<le> d \<and> d \<le> days_in_month y m \<and> H < 24 \<and> M < 60 \<and> S < 60
      then Some ((((days_from_civil y m d * 24 + int H) * 60 + int M) * 60 + int S) * 1000000)
      else None)"

text \<open>The offset: \<open>Some None\<close> when there is none, \<open>None\<close> when the text is not one.\<close>

definition parse_offset :: "string \<Rightarrow> int option option" where
  "parse_offset z =
     (if z = [] then Some None
      else if length z = 6 \<and> z ! 3 = CHR '':'' \<and> (z ! 0 = CHR ''+'' \<or> z ! 0 = CHR ''-'')
      then (case (number 0 (take 2 (drop 1 z)), number 0 (drop 4 z)) of
              (Some h, Some m) \<Rightarrow>
                if h < 24 \<and> m < 60
                then Some (Some ((if z ! 0 = CHR ''-'' then - 1 else 1) * ((int h * 60 + int m) * 60000000)))
                else None
            | _ \<Rightarrow> None)
      else None)"

definition fromisoformat_basic :: isoparser where
  "fromisoformat_basic s =
     (if 19 \<le> length s \<and> s ! 4 = CHR ''-'' \<and> s ! 7 = CHR ''-'' \<and> s ! 10 = CHR ''T''
         \<and> s ! 13 = CHR '':'' \<and> s ! 16 = CHR '':''
      then (case (number 0 (take 4 s), number 0 (take 2 (drop 5 s)), number 0 (take 2 (drop 8 s)),
                  number 0 (take 2 (drop 11 s)), number 0 (take 2 (drop 14 s)),
                  number 0 (take 2 (drop 17 s)), parse_offset (drop 19 s)) of
              (Some y, Some m, Some d, Some H, Some M, Some S, Some off) \<Rightarrow>
                (case civil_wall y m d H M S of
                   None \<Rightarrow> None
                 | Some w \<Rightarrow> Some \<lparr>wall = w, utcoffset = off\<rparr>)
            | _ \<Rightarrow> None)
      else None)"

section \<open>Notions of the specification\<close>

text \<open>An Observation of the data model, as far as the stability estimate reads it: a
  dict whose \<open>time\<close> is a text that parses and whose \<open>p_now\<close> is a number.\<close>

fun observation :: "isoparser \<Rightarrow> json \<Rightarrow> bool" where
  "observation fromiso (JObj kvs) =
     (case map_of kvs ''time'' of
        Some (JStr t) \<Rightarrow>
          (case fromiso (replace_Z t) of
             Some dt \<Rightarrow> (case map_of kvs ''p_now'' of Some (JNum p) \<Rightarrow> True | _ \<Rightarrow> False)
           | None \<Rightarrow> False)
      | _ \<Rightarrow> False)"
| "observation fromiso _ = False"

text \<open>The calendar date of a record and its pressure, where it has them.\<close>

definition day_of :: "isoparser \<Rightarrow> json \<Rightarrow> int option" where
  "day_of fromiso e =
     (case record_time fromiso e of Inl _ \<Rightarrow> None | Inr dt \<Rightarrow> Some (date dt))"

definition reading :: "json \<Rightarrow> real option" where
  "reading e = (case py_item e ''p_now'' of Inr (JNum p) \<Rightarrow> Some p | _ \<Rightarrow> None)"

text \<open>The daily mean in the specification's words: the arithmetic mean of \<open>p_now\<close>
  across the records of a date, absent when the date has no record.\<close>

definition readings_on :: "isoparser \<Rightarrow> json list \<Rightarrow> int \<Rightarrow> real list" where
  "readings_on fromiso entries d =
     List.map_filter (\<lambda>e. if day_of fromiso e = Some d then reading e else None) entries"

definition daily_mean :: "isoparser \<Rightarrow> json list \<Rightarrow> int \<Rightarrow> real option" where
  "daily_mean fromiso entries d =
     (let ps = readings_on fromiso entries d
      in if ps = [] then None else Some (sum_list ps / real (length ps)))"

text \<open>The instant of a record, in microseconds from the epoch, when its \<open>time\<close>
  parses to an aware value.\<close>

definition utc_instant :: "isoparser \<Rightarrow> json \<Rightarrow> int option" where
  "utc_instant fromiso e =
     (case record_time fromiso e of
        Inl _ \<Rightarrow> None
      | Inr dt \<Rightarrow> (case utcoffset dt of None \<Rightarrow> None | Some off \<Rightarrow> Some (wall dt - off)))"

definition not_before :: "isoparser \<Rightarrow> int \<Rightarrow> json \<Rightarrow> bool" where
  "not_before fromiso c e = (case utc_instant fromiso e of None \<Rightarrow> False | Some t \<Rightarrow> c \<le> t)"

text \<open>The instant of a record whose \<open>time\<close> is a UTC timestamp (offset zero), as the
  data model has it and as line 154 writes it.\<close>

definition utc_stamp :: "isoparser \<Rightarrow> json \<Rightarrow> int option" where
  "utc_stamp fromiso e =
     (case record_time fromiso e of
        Inl _ \<Rightarrow> None
      | Inr dt \<Rightarrow> if utcoffset dt = Some 0 then Some (wall dt) else None)"

text \<open>The UTC calendar hour of an instant: its UTC date and its hour of the day.\<close>

definition calendar_hour :: "int \<Rightarrow> int \<times> int" where
  "calendar_hour t = (date (utc t), hour (utc t))"

definition hour_key :: "isoparser \<Rightarrow> json \<Rightarrow> (int \<times> int) option" where
  "hour_key fromiso e = map_option calendar_hour (utc_stamp fromiso e)"


section \<open>Histories of the examples\<close>

text \<open>Clock readings: 2024-01-02T10:30:00Z, the same with two microseconds more, and
  2024-01-31T10:00:00Z, which is 720 hours after 2024-01-01T10:00:00Z.\<close>

definition jan02_1030 :: int where
  "jan02_1030 = 1704191400000000"

definition jan31_1000 :: int where
  "jan31_1000 = 1706695200000000"

definition four_day_history :: "json list" where
  "four_day_history =
     [make_entry ''2023-12-29T10:00:00Z'' 1013 70 6 75.2,
      make_entry ''2023-12-30T10:00:00Z'' 1012 70 6 75.2,
      make_entry ''2023-12-30T11:00:00Z'' 1014 70 6 75.2,
      make_entry ''2023-12-31T10:00:00Z'' 1013 70 6 75.2,
      make_entry ''2024-01-01T10:00:00Z'' 1013 70 6 75.2]"

definition two_day_history :: "json list" where
  "two_day_history =
     [make_entry ''2023-12-31T10:00:00Z'' 1013 70 6 75.2,
      make_entry ''2024-01-01T10:00:00Z'' 1014.5 70 6 75.2]"

definition boundary_history :: "json list" where
  "boundary_history =
     [make_entry ''2024-01-01T09:59:59Z'' 1013 70 6 75.2,
      make_entry ''2024-01-01T10:00:00Z'' 1013 70 6 75.2,
      make_entry ''2024-01-15T00:00:00Z'' 1013 70 6 75.2]"


text \<open>A record of the day before, at the same hour of the day as \<open>jan02_1030\<close>.\<close>

definition yesterday_same_hour :: json where
  "yesterday_same_hour = make_entry ''2024-01-01T10:00:00Z'' 1013 70 6 75.2"

definition new_entry :: json where
  "new_entry = make_entry ''2024-01-02T10:30:00Z'' 1012 71 6 75.8"

text \<open>A record whose \<open>time\<close> does not parse, and one whose \<open>time\<close> parses and
  whose \<open>p_now\<close> is missing.\<close>

definition garbled_record :: json where
  "garbled_record = make_entry ''not-a-time'' 1013 70 6 75.2"

definition no_pressure_record :: json where
  "no_pressure_record = JObj [(''time'', JStr ''2024-01-01T10:00:00Z''), (''T_now'', JNum 70)]"




definition log_path :: string where
  "log_path = ''./data/odds_log.json''"

section \<open>The score\<close>

lemma round_half_even_lower: "of_int n \<le> x \<Longrightarrow> n \<le> round_half_even x"
proof -
  assume "of_int n \<le> x"
  then have "n \<le> \<lfloor>x\<rfloor>" by (simp add: le_floor_iff)
  then show ?thesis by (simp add: round_half_even_def Let_def)
qed

lemma round_half_even_upper: "x \<le> of_int n \<Longrightarrow> round_half_even x \<le> n"
proof -
  assume h: "x \<le> of_int n"
  have f: "\<lfloor>x\<rfloor> \<le> n" using h by (simp add: floor_le_iff)
  show ?thesis
  proof (cases "x - of_int \<lfloor>x\<rfloor> < 1 / 2")
    case True
    then show ?thesis using f by (simp add: round_half_even_def Let_def)
  next
    case False
    then have "of_int \<lfloor>x\<rfloor> < x" by linarith
    then have "of_int \<lfloor>x\<rfloor> < (of_int n :: real)" using h by linarith
    then have "\<lfloor>x\<rfloor> < n" by simp
    then show ?thesis by (simp add: round_half_even_def Let_def)
  qed
qed

lemma weighted_bounds:
  fixes D P L T :: real
  assumes "0 \<le> D" "D \<le> 1" "0 \<le> P" "P \<le> 1" "0 \<le> L" "L \<le> 1" "0 \<le> T" "T \<le> 1"
  shows "0 \<le> (0.30 * D + 0.25 * P + 0.20 * L + 0.25 * T) * 100 * 10"
    and "(0.30 * D + 0.25 * P + 0.20 * L + 0.25 * T) * 100 * 10 \<le> 1000"
  using assms by simp_all

lemma clamp_unit:
  assumes "0 < c"
  shows "0 \<le> max 0 (1 - \<bar>x\<bar> / c) \<and> max 0 (1 - \<bar>x\<bar> / c) \<le> (1::real)"
  using assms by (simp add: max_def)

text \<open>
  C2, as the claim states it, is false: nothing clamps \<open>D\<close>, and with \<open>D = 2\<close> and
  the three readings at their ideal values the score is 130.
\<close>

theorem compute_score_unclamped_counterexample:
  "compute_score 1000 1000 75 7 2 = 130 \<and> \<not> compute_score 1000 1000 75 7 2 \<le> 100"
  by (simp add: compute_score_def py_round1_def round_half_even_def Let_def)

text \<open>
  C2, amended: for a stability fraction \<open>D\<close> between 0 and 1 and any readings, the
  score lies between 0 and 100 and is a whole number of tenths.
\<close>

theorem compute_score_range:
  assumes "0 \<le> D" and "D \<le> 1"
  shows "0 \<le> compute_score p_now p_prev T_now L_now D
       \<and> compute_score p_now p_prev T_now L_now D \<le> 100
       \<and> (\<exists>k::int. compute_score p_now p_prev T_now L_now D = of_int k / 10)"
proof -
  define P where "P = max 0 (1 - \<bar>p_now - p_prev\<bar> / 10)"
  define L where "L = max 0 (1 - \<bar>L_now - 7\<bar> / 5)"
  define T where "T = max 0 (1 - \<bar>T_now - 75\<bar> / 15)"
  define S where "S = 0.30 * D + 0.25 * P + 0.20 * L + 0.25 * T"
  have cs: "compute_score p_now p_prev T_now L_now D = of_int (round_half_even (S * 100 * 10)) / 10"
    by (simp add: compute_score_def py_round1_def Let_def S_def P_def L_def T_def)
  have b: "0 \<le> P" "P \<le> 1" "0 \<le> L" "L \<le> 1" "0 \<le> T" "T \<le> 1"
    using clamp_unit [of 10 "p_now - p_prev"] clamp_unit [of 5 "L_now - 7"]
      clamp_unit [of 15 "T_now - 75"]
    by (simp_all add: P_def L_def T_def)
  have lo: "of_int 0 \<le> S * 100 * 10" and hi: "S * 100 * 10 \<le> of_int 1000"
    using weighted_bounds [OF assms b] by (simp_all add: S_def)
  have "0 \<le> round_half_even (S * 100 * 10)" by (rule round_half_even_lower [OF lo])
  moreover have "round_half_even (S * 100 * 10) \<le> 1000" by (rule round_half_even_upper [OF hi])
  ultimately show ?thesis unfolding cs by auto
qed

text \<open>A run of the amended C2: stability 0.75, pressure 1013 after 1011, 70 degrees,
  gauge at 6 feet; the score is 75.2.\<close>

theorem compute_score_range_witness:
  "(0::real) \<le> 3 / 4 \<and> (3 / 4 :: real) \<le> 1 \<and> compute_score 1013 1011 70 6 (3 / 4) = 376 / 5
   \<and> 0 \<le> compute_score 1013 1011 70 6 (3 / 4) \<and> compute_score 1013 1011 70 6 (3 / 4) \<le> 100"
  using compute_score_range [of "3 / 4" 1013 1011 70 6]
  by (simp add: compute_score_def py_round1_def round_half_even_def Let_def)

section \<open>The stability estimate\<close>

lemma avgs_of_length: "avgs_of m ds = Inr as \<Longrightarrow> length as = length ds"
  by (induction ds arbitrary: as) (auto split: sum.splits)

lemma count_stable_le: "count_stable avgs \<le> length avgs - 1"
proof -
  have "length (filter (stable_at avgs) [1 ..< length avgs]) \<le> length [1 ..< length avgs]"
    by (rule length_filter_le)
  then show ?thesis by (simp add: count_stable_def)
qed

text \<open>
  C9: whenever the stability estimate returns, the value is 0, 0.25, 0.5 or 0.75: four
  daily means have three adjacent pairs and the count is divided by four, so 1.0 is
  never returned.
\<close>

theorem stability_values:
  assumes "compute_barometric_stability_local fromiso now entries = Inr r"
  shows "r \<in> {0, 1 / 4, 1 / 2, 3 / 4}"
proof (cases "entries = []")
  case True
  with assms show ?thesis by (simp add: compute_barometric_stability_local_def)
next
  case False
  with assms obtain m avgs where
    av: "avgs_of m (rev (past_dates (date (utc now)))) = Inr avgs" and
    r: "r = real (count_stable avgs) / real STABILITY_DAYS"
    by (auto simp: compute_barometric_stability_local_def split: sum.splits)
  have "length avgs = 4"
    using avgs_of_length [OF av] by (simp add: past_dates_def STABILITY_DAYS_def)
  with count_stable_le [of avgs] have "count_stable avgs \<le> 3" by simp
  then have "count_stable avgs \<in> {0, 1, 2, 3}" by auto
  then show ?thesis unfolding r STABILITY_DAYS_def by auto
qed

text \<open>A run of C9: records on the two days before 2024-01-02 whose pressures differ by
  1.5 give one stable pair, hence 0.25.\<close>

theorem stability_values_witness:
  "compute_barometric_stability_local fromisoformat_basic jan02_1030 two_day_history = Inr (1 / 4)
   \<and> (1 / 4 :: real) \<in> {0, 1 / 4, 1 / 2, 3 / 4}"
proof -
  have h: "compute_barometric_stability_local fromisoformat_basic jan02_1030 two_day_history = Inr (1 / 4)"
    by code_simp
  from stability_values [OF h] h show ?thesis by simp
qed

lemma observation_cases:
  assumes "observation fromiso e"
  obtains kvs t dt p where "e = JObj kvs" "map_of kvs ''time'' = Some (JStr t)"
    "fromiso (replace_Z t) = Some dt" "map_of kvs ''p_now'' = Some (JNum p)"
  using assms by (cases e) (auto split: option.splits json.splits)

lemma readings_on_Cons:
  assumes "e = JObj kvs" "map_of kvs ''time'' = Some (JStr t)"
    "fromiso (replace_Z t) = Some dt" "map_of kvs ''p_now'' = Some (JNum p)"
  shows "readings_on fromiso (e # es) d =
     (if date dt = d then p # readings_on fromiso es d else readings_on fromiso es d)"
  using assms
  by (simp add: readings_on_def List.map_filter_simps day_of_def record_time_def reading_def)

text \<open>What the loop of lines 87 to 95 leaves in the dictionary, for a history of
  observations: under each date, the pressures of that date in the order of the log.\<close>

lemma collect_observations:
  assumes "list_all (observation fromiso) entries"
  shows "\<exists>m'. collect fromiso entries m = Inr m' \<and>
     (\<forall>d. m' d = (if readings_on fromiso entries d = [] then m d
                   else Some ((case m d of None \<Rightarrow> [] | Some ps \<Rightarrow> ps)
                              @ map JNum (readings_on fromiso entries d))))"
  using assms
proof (induction entries arbitrary: m)
  case Nil
  then show ?case by (simp add: readings_on_def List.map_filter_simps)
next
  case (Cons e es)
  from Cons.prems have obs: "observation fromiso e" and rest: "list_all (observation fromiso) es"
    by simp_all
  from obs obtain kvs t dt p where e: "e = JObj kvs" "map_of kvs ''time'' = Some (JStr t)"
    "fromiso (replace_Z t) = Some dt" "map_of kvs ''p_now'' = Some (JNum p)"
    by (rule observation_cases)
  define m1 where
    "m1 = m(date dt \<mapsto> (case m (date dt) of None \<Rightarrow> [] | Some ps \<Rightarrow> ps) @ [JNum p])"
  have step: "collect fromiso (e # es) m = collect fromiso es m1"
    using e by (simp add: m1_def)
  from Cons.IH [OF rest, of m1] obtain m' where
    m': "collect fromiso es m1 = Inr m'" and
    look: "\<And>d. m' d = (if readings_on fromiso es d = [] then m1 d
                   else Some ((case m1 d of None \<Rightarrow> [] | Some ps \<Rightarrow> ps)
                              @ map JNum (readings_on fromiso es d)))"
    by blast
  have "m' d = (if readings_on fromiso (e # es) d = [] then m d
                else Some ((case m d of None \<Rightarrow> [] | Some ps \<Rightarrow> ps)
                           @ map JNum (readings_on fromiso (e # es) d)))" for d
  proof -
    have r: "readings_on fromiso (e # es) d =
       (if date dt = d then p # readings_on fromiso es d else readings_on fromiso es d)"
      using e by (rule readings_on_Cons)
    show ?thesis unfolding look [of d] r by (simp add: m1_def)
  qed
  with step m' show ?case by simp
qed

lemma py_sum_numbers: "py_sum acc (map JNum ps) = Inr (acc + sum_list ps)"
  by (induction ps arbitrary: acc) (simp_all add: add.assoc)

lemma day_avg_collected:
  assumes "list_all (observation fromiso) entries"
    and "collect fromiso entries Map.empty = Inr m'"
  shows "day_avg (m' d) = Inr (daily_mean fromiso entries d)"
proof -
  from collect_observations [OF assms(1), of Map.empty] assms(2)
  have "m' d = (if readings_on fromiso entries d = [] then None
                else Some (map JNum (readings_on fromiso entries d)))"
    by auto
  then show ?thesis
    by (simp add: day_avg_def daily_mean_def Let_def py_sum_numbers)
qed

lemma avgs_of_collected:
  assumes "list_all (observation fromiso) entries"
    and "collect fromiso entries Map.empty = Inr m'"
  shows "avgs_of m' ds = Inr (map (daily_mean fromiso entries) ds)"
  by (induction ds) (simp_all add: day_avg_collected [OF assms])

lemma count_stable_equal: "count_stable [Some a, Some a, Some a, Some a] = 3"
proof -
  have "[1 ..< 4] = [1, 2, 3::nat]" by (simp add: upt_rec)
  then show ?thesis by (simp add: count_stable_def stable_at_def STABILITY_THRESHOLD_def)
qed

text \<open>
  C8: for every history of observations in which each of the four calendar dates
  before today has records and the same daily mean pressure \<open>a\<close>, the stability
  estimate is 0.75 (records of other dates change nothing).
\<close>

theorem stability_four_equal_days:
  assumes "list_all (observation fromiso) entries"
    and "list_all (\<lambda>d. daily_mean fromiso entries d = Some a) (past_dates (date (utc now)))"
  shows "compute_barometric_stability_local fromiso now entries = Inr 0.75"
proof -
  have pd: "past_dates (date (utc now)) =
      [date (utc now) - 1, date (utc now) - 2, date (utc now) - 3, date (utc now) - 4]"
    by (simp add: past_dates_def STABILITY_DAYS_def upt_rec)
  from assms(2) have ne: "entries \<noteq> []"
    by (auto simp: pd daily_mean_def readings_on_def List.map_filter_simps)
  from collect_observations [OF assms(1), of Map.empty] obtain m' where
    m': "collect fromiso entries Map.empty = Inr m'" by blast
  have "avgs_of m' (rev (past_dates (date (utc now)))) = Inr [Some a, Some a, Some a, Some a]"
    using assms(2) unfolding avgs_of_collected [OF assms(1) m'] by (simp add: pd)
  then show ?thesis
    using ne m'
    by (simp add: compute_barometric_stability_local_def count_stable_equal STABILITY_DAYS_def)
qed

text \<open>A run of C8: on 2024-01-02 a log with records on each of the four days before,
  two of them on 2023-12-30 (1012 and 1014), every daily mean being 1013.\<close>

theorem stability_four_equal_days_witness:
  "list_all (observation fromisoformat_basic) four_day_history
   \<and> list_all (\<lambda>d. daily_mean fromisoformat_basic four_day_history d = Some 1013)
        (past_dates (date (utc jan02_1030)))
   \<and> compute_barometric_stability_local fromisoformat_basic jan02_1030 four_day_history = Inr 0.75"
proof -
  have h1: "list_all (observation fromisoformat_basic) four_day_history"
    by code_simp
  have h2: "list_all (\<lambda>d. daily_mean fromisoformat_basic four_day_history d = Some 1013)
        (past_dates (date (utc jan02_1030)))"
    by code_simp
  from stability_four_equal_days [OF h1 h2] h1 h2 show ?thesis by simp
qed

text \<open>
  C10: a record whose timestamp parses and whose \<open>p_now\<close> is missing makes the
  stability computation raise (TypeError, from the sum over the pressures of
  2024-01-01, a date of the window on 2024-01-02), where a record whose timestamp does
  not parse is skipped.
\<close>

theorem stability_fails_without_pressure:
  "record_time fromisoformat_basic no_pressure_record
     = Inr \<lparr>wall = 1704103200000000, utcoffset = Some 0\<rparr>
   \<and> py_get no_pressure_record ''p_now'' = Inr JNull
   \<and> compute_barometric_stability_local fromisoformat_basic jan02_1030 [no_pressure_record]
       = Inl TypeError
   \<and> compute_barometric_stability_local fromisoformat_basic jan02_1030 [garbled_record] = Inr 0"
  by code_simp

section \<open>Pruning\<close>

lemma keep_recent_filter:
  assumes "list_all (\<lambda>e. utc_instant fromiso e \<noteq> None) data"
  shows "keep_recent fromiso (utc c) data = Inr (filter (not_before fromiso c) data)"
  using assms
proof (induction data)
  case Nil
  show ?case by simp
next
  case (Cons e es)
  from Cons.prems obtain dt off where
    dt: "record_time fromiso e = Inr dt" and off: "utcoffset dt = Some off"
    by (auto simp: utc_instant_def split: sum.splits option.splits)
  have ge: "dt_ge dt (utc c) = Inr (c \<le> wall dt - off)"
    by (simp add: dt_ge_def utc_def off)
  have nb: "not_before fromiso c e = (c \<le> wall dt - off)"
    by (simp add: not_before_def utc_instant_def dt off)
  from Cons have "keep_recent fromiso (utc c) es = Inr (filter (not_before fromiso c) es)"
    by simp
  then show ?case by (simp add: dt ge nb)
qed

text \<open>
  C3: for every history whose records carry aware timestamps and every clock reading
  \<open>now\<close>, pruning returns the records whose instant is not before \<open>now - 720h\<close>, in
  the order of the log: a record is removed exactly when it is strictly earlier than
  the cutoff, and one exactly at the cutoff stays.
\<close>

theorem prune_keeps_recent:
  assumes "list_all (\<lambda>e. utc_instant fromiso e \<noteq> None) data"
  shows "prune fromiso now data = Inr (filter (not_before fromiso (now - 720 * us_per_hour)) data)"
  using keep_recent_filter [OF assms] by (simp add: prune_def KEEP_HOURS_def)

text \<open>A run of C3 on 2024-01-31T10:00:00Z: the record of 2024-01-01T09:59:59Z goes,
  the one of 2024-01-01T10:00:00Z, exactly 720 hours old, stays, and so does the one
  of 2024-01-15.\<close>

theorem prune_keeps_recent_witness:
  "list_all (\<lambda>e. utc_instant fromisoformat_basic e \<noteq> None) boundary_history
   \<and> utc_instant fromisoformat_basic (boundary_history ! 1) = Some (jan31_1000 - 720 * us_per_hour)
   \<and> prune fromisoformat_basic jan31_1000 boundary_history
       = Inr [boundary_history ! 1, boundary_history ! 2]"
proof -
  have h: "list_all (\<lambda>e. utc_instant fromisoformat_basic e \<noteq> None) boundary_history"
    by code_simp
  have b: "utc_instant fromisoformat_basic (boundary_history ! 1) = Some (jan31_1000 - 720 * us_per_hour)"
    by code_simp
  have f: "filter (not_before fromisoformat_basic (jan31_1000 - 720 * us_per_hour)) boundary_history
       = [boundary_history ! 1, boundary_history ! 2]"
    by code_simp
  from prune_keeps_recent [OF h, of jan31_1000] f h b show ?thesis by simp
qed

section \<open>Merge or append\<close>






text \<open>
  C1 fails on the code: line 158 compares \<open>.hour\<close> alone. With a log holding the
  record of 2024-01-01T10:00:00Z and a new entry of 2024-01-02T10:30:00Z (the clock of
  line 158 two microseconds later), the calendar hours differ (days 19723 and 19724),
  yet the old record is replaced: the new log is the entry alone, where the claim has
  the entry appended and the old record kept. A whole run from a log file with that
  record saves a file with the new entry only.
\<close>

theorem merge_replaces_record_of_another_day:
  "hour_key fromisoformat_basic yesterday_same_hour = Some (19723, 10)
   \<and> hour_key fromisoformat_basic new_entry = Some (19724, 10)
   \<and> calendar_hour (jan02_1030 + 2) = (19724, 10)
   \<and> merge_or_append fromisoformat_basic (jan02_1030 + 2) [yesterday_same_hour] new_entry
       = Inr [new_entry]
   \<and> update_log fromisoformat_basic jan02_1030 (jan02_1030 + 2) [yesterday_same_hour] new_entry
       = Inr [new_entry]
   \<and> snd (main_log fromisoformat_basic (\<lambda>c. False) log_path jan02_1030 ''2024-01-02T10:30:00Z''
            (jan02_1030 + 1) (jan02_1030 + 2) 1012 1011 71 6
            [log_path \<mapsto> Document (JArr [yesterday_same_hour])]) log_path
       = Some (Document (JArr [make_entry ''2024-01-02T10:30:00Z'' 1012 71 6 56.8]))"
  by code_simp







text \<open>
  C6 fails on the code: a record whose timestamp does not parse is skipped by the
  stability estimate (the four good days still give 0.75), but line 157 parses every
  timestamp again with nothing to catch the ValueError, so pruning, the update and
  the run itself (no system call failing) raise instead of keeping or dropping the
  record.
\<close>

theorem unparsable_timestamp_stops_the_update:
  "compute_barometric_stability_local fromisoformat_basic jan02_1030
       (four_day_history @ [garbled_record]) = Inr 0.75
   \<and> prune fromisoformat_basic jan02_1030 (four_day_history @ [garbled_record]) = Inl ValueError
   \<and> update_log fromisoformat_basic jan02_1030 (jan02_1030 + 2)
       (four_day_history @ [garbled_record]) new_entry = Inl ValueError
   \<and> fst (main_log fromisoformat_basic (\<lambda>c. False) log_path jan02_1030 ''2024-01-02T10:30:00Z''
            (jan02_1030 + 1) (jan02_1030 + 2) 1012 1011 71 6
            [log_path \<mapsto> Document (JArr (four_day_history @ [garbled_record]))])
       = Inl ValueError"
  by code_simp

section \<open>Loading and saving\<close>

text \<open>
  C5, as the claim states it, is false: a file holding a JSON array is returned as it
  is, whatever its elements; here a number and a string, no Observation among them.
\<close>

theorem load_returns_any_array_counterexample:
  "load_existing_data [log_path \<mapsto> Document (JArr [JNum 1, JStr ''x''])] log_path
     = Inr [JNum 1, JStr ''x'']
   \<and> load_existing_data [log_path \<mapsto> Document (JArr [JNum 1, JStr ''x''])] log_path \<noteq> Inr []"
  by (simp add: load_existing_data_def load_try_def)

text \<open>
  C5, amended: \<open>load\<close> never raises. It returns the elements of the array when the
  file is readable and holds a JSON array, whatever the elements are, and the empty
  sequence in every other state: file absent, unreadable, not valid JSON, or a JSON
  value that is not an array.
\<close>

theorem load_never_raises:
  "load_existing_data fs path =
     Inr (case fs path of Some (Document (JArr xs)) \<Rightarrow> xs | _ \<Rightarrow> [])"
  by (simp add: load_existing_data_def load_try_def split: option.splits stored.splits json.splits)

text \<open>
  C4: whichever system calls of \<open>save_data\<close> fail, every state of the file system it
  goes through holds at the final path either what was there before or the complete
  new document, never a part of it; when \<open>save_data\<close> raises, every state holds what
  was there before; and when it returns, the final path holds the new document.
\<close>

theorem save_data_atomic:
  "list_all (\<lambda>s. s path = fs path \<or> s path = Some (Document (JArr data)))
     (snd (save_data fails path data fs))
   \<and> (fst (save_data fails path data fs) \<noteq> Inr () \<longrightarrow>
        list_all (\<lambda>s. s path = fs path) (snd (save_data fails path data fs)))
   \<and> (fst (save_data fails path data fs) = Inr () \<longrightarrow>
        last (snd (save_data fails path data fs)) path = Some (Document (JArr data)))"
  by (simp add: save_data_def Let_def)

text \<open>A run of C4: \<open>json.dump\<close> fails while the log holds one record; the log is the
  same in every state, the temporary file is left with a part of the text.\<close>

theorem save_data_atomic_witness:
  "fst (save_data (\<lambda>c. c = Dump) log_path [new_entry]
          [log_path \<mapsto> Document (JArr [yesterday_same_hour])]) = Inl OSError
   \<and> fst (save_data (\<lambda>c. c = Dump) log_path [new_entry]
          [log_path \<mapsto> Document (JArr [yesterday_same_hour])]) \<noteq> Inr ()
   \<and> list_all (\<lambda>s. s log_path = Some (Document (JArr [yesterday_same_hour])))
        (snd (save_data (\<lambda>c. c = Dump) log_path [new_entry]
                [log_path \<mapsto> Document (JArr [yesterday_same_hour])]))
   \<and> last (snd (save_data (\<lambda>c. c = Dump) log_path [new_entry]
                [log_path \<mapsto> Document (JArr [yesterday_same_hour])])) (log_path @ ''.tmp'')
       = Some Malformed"
proof -
  have d: "dirname log_path = ''./data''"
    by (simp add: dirname_def log_path_def)
  have run: "save_data (\<lambda>c. c = Dump) log_path [new_entry]
          [log_path \<mapsto> Document (JArr [yesterday_same_hour])]
       = (Inl OSError,
          [[log_path \<mapsto> Document (JArr [yesterday_same_hour])],
           [log_path \<mapsto> Document (JArr [yesterday_same_hour]), log_path @ ''.tmp'' \<mapsto> Malformed]])"
    by (simp add: save_data_def Let_def d)
  have h: "fst (save_data (\<lambda>c. c = Dump) log_path [new_entry]
          [log_path \<mapsto> Document (JArr [yesterday_same_hour])]) \<noteq> Inr ()"
    by (simp add: run)
  from save_data_atomic [of log_path "[log_path \<mapsto> Document (JArr [yesterday_same_hour])]"
      "[new_entry]" "\<lambda>c. c = Dump"] h
  have "list_all (\<lambda>s. s log_path = Some (Document (JArr [yesterday_same_hour])))
        (snd (save_data (\<lambda>c. c = Dump) log_path [new_entry]
                [log_path \<mapsto> Document (JArr [yesterday_same_hour])]))"
    by simp
  then show ?thesis using h by (simp add: run)
qed

end
